theory Spec2Isabelle
  imports Complex_Main "HOL-Library.Multiset"
begin

section \<open>The data-loading cell of DataDriven\_StarNet\_CNN.ipynb\<close>

text \<open>
  The notebook is a script: the cell "Load non-normalized spectra" loads the label
  statistics, defines \<^verbatim>\<open>normalize\<close>, reads the spectra and the three label columns,
  normalises the labels, replaces NaN fluxes, removes the spectra whose standard deviation
  is zero, shuffles the column-stacked reference data and slices it into a training and a
  cross-validation set. Every statement of that cell is a definition below, in the order of
  the cell.
\<close>

subsection \<open>Floating-point values\<close>

text \<open>
  An array element is an IEEE value: a finite number, an infinity or NaN. The finite
  values are idealised as reals: no rounding, no overflow, one zero. What IEEE arithmetic
  does with infinities, NaN and a zero divisor is written out, since the cell divides by
  the label standard deviations and tests \<^verbatim>\<open>np.isnan\<close> and \<^verbatim>\<open>!= 0.\<close>.

  Rounding decides two kinds of statement, and neither is made with this arithmetic: how
  close a computed value is to the exact one, and which spectra have a computed standard
  deviation of exactly zero. Where the cell is evaluated below, it is at inputs whose every
  intermediate value is a small dyadic number, which a double represents exactly.
\<close>

datatype npfloat = Fin real | PInf | NInf | NaN

datatype error = ValueError | IndexError

type_synonym ndarray1 = "npfloat list"

text \<open>A two-dimensional array is the list of its rows.\<close>

type_synonym ndarray2 = "npfloat list list"

type_synonym ndarray3 = "npfloat list list list"

definition isnan :: "npfloat \<Rightarrow> bool" where
  "isnan x = (x = NaN)"

definition isfinite :: "npfloat \<Rightarrow> bool" where
  "isfinite x = (case x of Fin _ \<Rightarrow> True | _ \<Rightarrow> False)"

fun fneg :: "npfloat \<Rightarrow> npfloat" where
  "fneg (Fin a) = Fin (- a)"
| "fneg PInf = NInf"
| "fneg NInf = PInf"
| "fneg NaN = NaN"

fun fadd :: "npfloat \<Rightarrow> npfloat \<Rightarrow> npfloat" where
  "fadd (Fin a) (Fin b) = Fin (a + b)"
| "fadd NaN _ = NaN"
| "fadd _ NaN = NaN"
| "fadd PInf NInf = NaN"
| "fadd NInf PInf = NaN"
| "fadd PInf _ = PInf"
| "fadd _ PInf = PInf"
| "fadd NInf _ = NInf"
| "fadd _ NInf = NInf"

definition fsub :: "npfloat \<Rightarrow> npfloat \<Rightarrow> npfloat" where
  "fsub a b = fadd a (fneg b)"

fun fmul :: "npfloat \<Rightarrow> npfloat \<Rightarrow> npfloat" where
  "fmul (Fin a) (Fin b) = Fin (a * b)"
| "fmul NaN _ = NaN"
| "fmul _ NaN = NaN"
| "fmul (Fin a) PInf = (if a = 0 then NaN else if 0 < a then PInf else NInf)"
| "fmul (Fin a) NInf = (if a = 0 then NaN else if 0 < a then NInf else PInf)"
| "fmul PInf (Fin b) = (if b = 0 then NaN else if 0 < b then PInf else NInf)"
| "fmul NInf (Fin b) = (if b = 0 then NaN else if 0 < b then NInf else PInf)"
| "fmul PInf PInf = PInf"
| "fmul PInf NInf = NInf"
| "fmul NInf PInf = NInf"
| "fmul NInf NInf = PInf"

text \<open>
  Division follows numpy: a zero divisor raises nothing (numpy prints a RuntimeWarning
  and goes on), the quotient is an infinity, or NaN for 0/0.
\<close>

fun fdiv :: "npfloat \<Rightarrow> npfloat \<Rightarrow> npfloat" where
  "fdiv (Fin a) (Fin b) =
     (if b = 0 then (if a = 0 then NaN else if 0 < a then PInf else NInf)
      else Fin (a / b))"
| "fdiv NaN _ = NaN"
| "fdiv _ NaN = NaN"
| "fdiv (Fin a) PInf = Fin 0"
| "fdiv (Fin a) NInf = Fin 0"
| "fdiv PInf (Fin b) = (if 0 \<le> b then PInf else NInf)"
| "fdiv NInf (Fin b) = (if 0 \<le> b then NInf else PInf)"
| "fdiv PInf PInf = NaN"
| "fdiv PInf NInf = NaN"
| "fdiv NInf PInf = NaN"
| "fdiv NInf NInf = NaN"

fun fsqrt :: "npfloat \<Rightarrow> npfloat" where
  "fsqrt (Fin a) = (if a < 0 then NaN else Fin (sqrt a))"
| "fsqrt PInf = PInf"
| "fsqrt NInf = NaN"
| "fsqrt NaN = NaN"

subsection \<open>The numpy operations the cell calls\<close>

definition np_sum :: "ndarray1 \<Rightarrow> npfloat" where
  "np_sum xs = foldl fadd (Fin 0) xs"

definition np_mean :: "ndarray1 \<Rightarrow> npfloat" where
  "np_mean xs = fdiv (np_sum xs) (Fin (real (length xs)))"

text \<open>
  \<^verbatim>\<open>np.std\<close> of one row: the square root of the mean of the squared deviations from
  the mean (the population standard deviation, ddof = 0). Of an empty row it is NaN (0/0).
\<close>

definition np_std :: "ndarray1 \<Rightarrow> npfloat" where
  "np_std xs =
     (let arrmean = np_mean xs;
          x = map (\<lambda>v. fsub v arrmean) xs
      in fsqrt (np_mean (map (\<lambda>d. fmul d d) x)))"

text \<open>
  Broadcasting of two one-dimensional shapes: equal lengths, or one of them is 1 and is
  stretched; otherwise numpy raises ValueError.
\<close>

definition bshape :: "nat \<Rightarrow> nat \<Rightarrow> nat option" where
  "bshape m n =
     (if m = n then Some m else if m = 1 then Some n else if n = 1 then Some m else None)"

definition stretch :: "nat \<Rightarrow> 'a list \<Rightarrow> 'a list" where
  "stretch n v = (if length v = n then v else replicate n (hd v))"

definition np_binop ::
  "(npfloat \<Rightarrow> npfloat \<Rightarrow> npfloat) \<Rightarrow> ndarray1 \<Rightarrow> ndarray1 \<Rightarrow> error + ndarray1" where
  "np_binop f a b =
     (case bshape (length a) (length b) of
        None \<Rightarrow> Inl ValueError
      | Some n \<Rightarrow> Inr (map2 f (stretch n a) (stretch n b)))"

text \<open>
  \<^verbatim>\<open>a[indices]\<close> with an integer index array: the selected rows in the order of the
  indices; IndexError when an index is out of bounds.
\<close>

definition fancy_index :: "'a list \<Rightarrow> nat list \<Rightarrow> error + 'a list" where
  "fancy_index a idx =
     (if list_all (\<lambda>i. i < length a) idx then Inr (map (\<lambda>i. a ! i) idx)
      else Inl IndexError)"

text \<open>\<^verbatim>\<open>np.column_stack\<close> of three one-dimensional columns, and of two matrices.\<close>

definition column_stack3 :: "ndarray1 \<Rightarrow> ndarray1 \<Rightarrow> ndarray1 \<Rightarrow> error + ndarray2" where
  "column_stack3 a b c =
     (if length a = length b \<and> length b = length c
      then Inr (map (\<lambda>(x, y, z). [x, y, z]) (zip a (zip b c)))
      else Inl ValueError)"

definition column_stack :: "ndarray2 \<Rightarrow> ndarray2 \<Rightarrow> error + ndarray2" where
  "column_stack a b =
     (if length a = length b then Inr (map (\<lambda>(r, s). r @ s) (zip a b))
      else Inl ValueError)"

text \<open>
  \<^verbatim>\<open>a.shape[1]\<close>. An array is the list of its rows, so the column count of an array
  without rows is not represented; it is read as 0 there, and nothing is sliced with it.
\<close>

definition shape1 :: "ndarray2 \<Rightarrow> nat" where
  "shape1 a = (case a of [] \<Rightarrow> 0 | r # _ \<Rightarrow> length r)"

text \<open>\<^verbatim>\<open>a.reshape(a.shape[0], a.shape[1], 1)\<close>: every scalar becomes a vector of length 1.\<close>

definition reshape3 :: "ndarray2 \<Rightarrow> ndarray3" where
  "reshape3 a = map (map (\<lambda>x. [x])) a"

subsection \<open>The global random generator and \<^verbatim>\<open>np.random.shuffle\<close>\<close>

text \<open>
  The cell calls \<^verbatim>\<open>np.random.shuffle(reference_data)\<close>: the generator is numpy's
  module-level one, which the notebook never seeds. numpy is not part of the repository,
  so the state of the generator is modelled by the stream of values it will produce, and
  \<^verbatim>\<open>rk_interval(max)\<close> takes the next value of the stream into \<open>{0..max}\<close> (numpy
  masks and rejects raw values where the model reduces modulo \<open>max + 1\<close>: either way
  the draw lies in \<open>{0..max}\<close> and is determined by the state). Every sequence of
  draws the real generator can make is the one of some stream.
\<close>

type_synonym rk_state = "nat \<Rightarrow> nat"

definition rk_interval :: "nat \<Rightarrow> rk_state \<Rightarrow> nat \<times> rk_state" where
  "rk_interval mx g = (g 0 mod (mx + 1), (\<lambda>n. g (Suc n)))"

text \<open>
  \<^verbatim>\<open>shuffle\<close> of an array of rows: for \<open>i = n - 1\<close> down to 1, draw \<open>j\<close> in
  \<open>{0..i}\<close> and exchange rows \<open>i\<close> and \<open>j\<close> through a buffer (nothing is exchanged when
  \<open>i = j\<close>).
\<close>

fun shuffle_loop :: "nat \<Rightarrow> 'a list \<Rightarrow> rk_state \<Rightarrow> 'a list \<times> rk_state" where
  "shuffle_loop 0 x g = (x, g)"
| "shuffle_loop (Suc k) x g =
     (case rk_interval (Suc k) g of
        (j, g') \<Rightarrow>
          shuffle_loop k (if Suc k = j then x else x[j := x ! Suc k, Suc k := x ! j]) g')"

definition shuffle :: "'a list \<Rightarrow> rk_state \<Rightarrow> 'a list \<times> rk_state" where
  "shuffle x g = shuffle_loop (length x - 1) x g"

subsection \<open>The cell\<close>

text \<open>
  \<^verbatim>\<open>mean_labels = mean_and_std[0]; std_labels = mean_and_std[1];
  num_labels = mean_and_std.shape[1]\<close>.
\<close>

definition load_stats :: "ndarray2 \<Rightarrow> error + (ndarray1 \<times> ndarray1 \<times> nat)" where
  "load_stats mean_and_std =
     (if length mean_and_std < 2 then Inl IndexError
      else Inr (mean_and_std ! 0, mean_and_std ! 1, shape1 mean_and_std))"

text \<open>
  \<^verbatim>\<open>def normalize(lb): return (lb-mean_labels)/std_labels\<close>, on one label vector.
  The two globals it reads are its first two arguments.
\<close>

definition normalize :: "ndarray1 \<Rightarrow> ndarray1 \<Rightarrow> ndarray1 \<Rightarrow> error + ndarray1" where
  "normalize mean_labels std_labels lb =
     (case np_binop fsub lb mean_labels of
        Inl e \<Rightarrow> Inl e
      | Inr d \<Rightarrow> np_binop fdiv d std_labels)"

fun traverse :: "('a \<Rightarrow> error + 'b) \<Rightarrow> 'a list \<Rightarrow> error + 'b list" where
  "traverse f [] = Inr []"
| "traverse f (x # xs) =
     (case f x of
        Inl e \<Rightarrow> Inl e
      | Inr y \<Rightarrow> (case traverse f xs of Inl e \<Rightarrow> Inl e | Inr ys \<Rightarrow> Inr (y # ys)))"

text \<open>
  \<^verbatim>\<open>normalize\<close> on the (N, 3) label matrix: the statistics are broadcast along the
  rows, so every row is normalised as a vector; the shapes are checked also when there is
  no row.
\<close>

definition normalize_rows :: "ndarray1 \<Rightarrow> ndarray1 \<Rightarrow> ndarray2 \<Rightarrow> error + ndarray2" where
  "normalize_rows mean_labels std_labels lbs =
     (case bshape 3 (length mean_labels) of
        None \<Rightarrow> Inl ValueError
      | Some w \<Rightarrow>
          (case bshape w (length std_labels) of
             None \<Rightarrow> Inl ValueError
           | Some _ \<Rightarrow> traverse (normalize mean_labels std_labels) lbs))"

text \<open>\<^verbatim>\<open>num_train=int(0.9*len(labels))\<close>.
  The product is a double and \<^verbatim>\<open>int\<close> truncates it. The double 0.9 exceeds 9/10 by
  less than \<open>2.3e-17\<close>, so for every length below \<open>10^15\<close> the truncated product is
  \<open>\<lfloor>9 n / 10\<rfloor>\<close>.\<close>

definition num_train_of :: "nat \<Rightarrow> nat" where
  "num_train_of n = (9 * n) div 10"

text \<open>
  \<^verbatim>\<open>indices_nan = np.where(np.isnan(spectra)); spectra[indices_nan]=0.\<close>
\<close>

definition nan_to_zero :: "ndarray2 \<Rightarrow> ndarray2" where
  "nan_to_zero spectra = map (map (\<lambda>x. if isnan x then Fin 0 else x)) spectra"

text \<open>
  \<^verbatim>\<open>spec_std = np.std(spectra,axis=1); spec_std = spec_std.reshape(spec_std.shape[0],1);
  indices = np.where(spec_std!=0.)[0]\<close>: the row numbers, ascending, whose standard
  deviation differs from zero (NaN differs from zero).
\<close>

definition spec_std :: "ndarray2 \<Rightarrow> ndarray1" where
  "spec_std spectra = map np_std spectra"

definition std_indices :: "ndarray2 \<Rightarrow> nat list" where
  "std_indices spectra =
     filter (\<lambda>i. spec_std spectra ! i \<noteq> Fin 0) [0..<length (spec_std spectra)]"

text \<open>
  The cleaning statements of the cell: NaN replacement, then
  \<^verbatim>\<open>spectra = spectra[indices]; labels = labels[indices]\<close>.
\<close>

definition clean :: "ndarray2 \<Rightarrow> ndarray2 \<Rightarrow> error + (ndarray2 \<times> ndarray2)" where
  "clean spectra labels =
     (let spectra0 = nan_to_zero spectra;
          indices = std_indices spectra0
      in case fancy_index spectra0 indices of
           Inl e \<Rightarrow> Inl e
         | Inr spectra1 \<Rightarrow>
             (case fancy_index labels indices of
                Inl e \<Rightarrow> Inl e
              | Inr labels1 \<Rightarrow> Inr (spectra1, labels1)))"

text \<open>
  The same statements with \<^verbatim>\<open>np.std\<close> as a parameter. What \<^verbatim>\<open>np.std\<close> returns on a
  row is fixed by numpy (the order of its summation and the rounding of the array's dtype),
  not by the notebook, and \<open>np_std\<close> above agrees with it only where every intermediate
  value is exactly representable. \<open>clean\<close> is \<open>clean_with np_std\<close>.
\<close>

definition std_indices_with :: "(ndarray1 \<Rightarrow> npfloat) \<Rightarrow> ndarray2 \<Rightarrow> nat list" where
  "std_indices_with std spectra =
     filter (\<lambda>i. map std spectra ! i \<noteq> Fin 0) [0..<length (map std spectra)]"

definition clean_with ::
  "(ndarray1 \<Rightarrow> npfloat) \<Rightarrow> ndarray2 \<Rightarrow> ndarray2 \<Rightarrow> error + (ndarray2 \<times> ndarray2)" where
  "clean_with std spectra labels =
     (let spectra0 = nan_to_zero spectra;
          indices = std_indices_with std spectra0
      in case fancy_index spectra0 indices of
           Inl e \<Rightarrow> Inl e
         | Inr spectra1 \<Rightarrow>
             (case fancy_index labels indices of
                Inl e \<Rightarrow> Inl e
              | Inr labels1 \<Rightarrow> Inr (spectra1, labels1)))"

record dataset =
  train_spectra :: ndarray3
  train_labels :: ndarray2
  cv_spectra :: ndarray3
  cv_labels :: ndarray2

text \<open>
  The shuffle and the slices:
  \<^verbatim>\<open>reference_data = np.column_stack((spectra,labels)); np.random.shuffle(reference_data);
  train_spectra = reference_data[0:num_train,0:num_fluxes]\<close> and so on. A slice past the
  end is cut at the end.
\<close>

definition split ::
  "nat \<Rightarrow> nat \<Rightarrow> ndarray2 \<Rightarrow> ndarray2 \<Rightarrow> rk_state \<Rightarrow> error + (dataset \<times> rk_state)" where
  "split num_train num_fluxes spectra labels g =
     (case column_stack spectra labels of
        Inl e \<Rightarrow> Inl e
      | Inr reference_data0 \<Rightarrow>
          (case shuffle reference_data0 g of
             (reference_data, g') \<Rightarrow>
               Inr (\<lparr> train_spectra =
                        reshape3 (map (take num_fluxes) (take num_train reference_data)),
                      train_labels = map (drop num_fluxes) (take num_train reference_data),
                      cv_spectra =
                        reshape3 (map (take num_fluxes) (drop num_train reference_data)),
                      cv_labels = map (drop num_fluxes) (drop num_train reference_data) \<rparr>,
                    g')))"

record h5file =
  spectrum :: ndarray2
  TEFF :: ndarray1
  LOGG :: ndarray1
  FE_H :: ndarray1

text \<open>The whole cell, from the two files and the state of the global generator.\<close>

definition load_cell :: "ndarray2 \<Rightarrow> h5file \<Rightarrow> rk_state \<Rightarrow> error + (dataset \<times> rk_state)" where
  "load_cell mean_and_std F g =
     (case load_stats mean_and_std of
        Inl e \<Rightarrow> Inl e
      | Inr (mean_labels, std_labels, num_labels) \<Rightarrow>
          (case column_stack3 (TEFF F) (LOGG F) (FE_H F) of
             Inl e \<Rightarrow> Inl e
           | Inr labels0 \<Rightarrow>
               (case normalize_rows mean_labels std_labels labels0 of
                  Inl e \<Rightarrow> Inl e
                | Inr labels \<Rightarrow>
                    (let spectra = spectrum F;
                         num_fluxes = shape1 spectra;
                         num_train = num_train_of (length labels)
                     in case clean spectra labels of
                          Inl e \<Rightarrow> Inl e
                        | Inr (spectra1, labels1) \<Rightarrow>
                            split num_train num_fluxes spectra1 labels1 g))))"

text \<open>
  Auxiliary: what the two column slices \<^verbatim>\<open>[..., 0:num_fluxes]\<close> (reshaped) and
  \<^verbatim>\<open>[..., num_fluxes:]\<close> make of one row of the reference data.
\<close>

definition unstack :: "nat \<Rightarrow> npfloat list \<Rightarrow> npfloat list list \<times> npfloat list" where
  "unstack num_fluxes row = (map (\<lambda>x. [x]) (take num_fluxes row), drop num_fluxes row)"

section \<open>Parts of the repository outside the notebook\<close>

text \<open>
  Modelled from the spec: \<^verbatim>\<open>LabelNormalizer.invert\<close>. The notebook only defines
  \<^verbatim>\<open>normalize\<close>; the inverse lives in the test notebooks, which are not among the sources.
  The spec (4.3): "\<^verbatim>\<open>invert(normalized, stats) -> original-scale labels\<close>: exact algebraic
  inverse, \<^verbatim>\<open>x*std + mean\<close>", element-wise per dimension.
\<close>

definition invert :: "ndarray1 \<Rightarrow> ndarray1 \<Rightarrow> ndarray1 \<Rightarrow> ndarray1" where
  "invert mean_labels std_labels x =
     map (\<lambda>(v, m, s). fadd (fmul v s) m) (zip x (zip mean_labels std_labels))"

text \<open>
  Modelled from the spec: the persistence of NormalizationStats. The notebook only loads
  \<^verbatim>\<open>aspcap_labels_mean_and_std.npy\<close>; the code that writes it is in the preprocessing
  notebook, not among the sources. The spec (6): "a small fixed-shape numeric array (2 rows
  -- mean, std -- by D label dimensions) persisted to and loaded from a file; must
  round-trip exactly". The file keeps the array it is given.
\<close>

definition save_stats :: "ndarray1 \<Rightarrow> ndarray1 \<Rightarrow> ndarray2" where
  "save_stats mean_labels std_labels = [mean_labels, std_labels]"

text \<open>
  Modelled from the spec: \<^verbatim>\<open>ErrorPropagator\<close> (4.5); the error-propagation notebook
  is not among the sources. With ensemble size K: K below 2 raises
  \<^verbatim>\<open>InsufficientSamplesError\<close>; otherwise K perturbed copies of the spectrum are made,
  the model predicts once per copy, and a prediction that throws fails the whole
  estimate with \<^verbatim>\<open>PropagationError\<close>; the K outputs are mapped back to physical units
  by \<^verbatim>\<open>invert\<close> and summarised, per label dimension, by their mean and their standard
  deviation. The model (\<open>None\<close> when it throws) and the perturbation policy are
  parameters.
\<close>

datatype propagation_error = InsufficientSamplesError | PropagationError

definition error_propagator ::
  "(ndarray1 \<Rightarrow> ndarray1 option) \<Rightarrow> (nat \<Rightarrow> ndarray1 \<Rightarrow> ndarray1) \<Rightarrow>
   ndarray1 \<Rightarrow> ndarray1 \<Rightarrow> nat \<Rightarrow> ndarray1 \<Rightarrow> propagation_error + (ndarray1 \<times> ndarray1)" where
  "error_propagator predict perturb mean_labels std_labels K target =
     (if K < 2 then Inl InsufficientSamplesError
      else case those (map (\<lambda>k. predict (perturb k target)) [0..<K]) of
             None \<Rightarrow> Inl PropagationError
           | Some outs \<Rightarrow>
               (let phys = transpose (map (invert mean_labels std_labels) outs)
                in Inr (map np_mean phys, map np_std phys)))"

section \<open>Properties of the cleaning statements\<close>

lemmas eval_defs = clean_def std_indices_def spec_std_def nan_to_zero_def isnan_def
  np_std_def np_mean_def np_sum_def fsub_def fancy_index_def Let_def

lemma fancy_index_Inr:
  "fancy_index a idx = Inr r \<longleftrightarrow> (\<forall>i\<in>set idx. i < length a) \<and> r = map (\<lambda>i. a ! i) idx"
  by (auto simp: fancy_index_def list_all_iff)

lemma fancy_index_Inl:
  "fancy_index a idx = Inl e \<longleftrightarrow> \<not> (\<forall>i\<in>set idx. i < length a) \<and> e = IndexError"
  by (auto simp: fancy_index_def list_all_iff)

lemma length_nan_to_zero: "length (nan_to_zero spectra) = length spectra"
  by (simp add: nan_to_zero_def)

lemma nan_to_zero_no_nan:
  "row \<in> set (nan_to_zero spectra) \<Longrightarrow> x \<in> set row \<Longrightarrow> \<not> isnan x"
  by (auto simp: nan_to_zero_def isnan_def)

lemma std_indices_eq:
  "std_indices s = filter (\<lambda>i. np_std (s ! i) \<noteq> Fin 0) [0..<length s]"
  unfolding std_indices_def spec_std_def
  by (rule filter_cong) auto

lemma std_indices_bound: "i \<in> set (std_indices s) \<Longrightarrow> i < length s"
  by (simp add: std_indices_eq)

lemma sorted_std_indices: "sorted_wrt (<) (std_indices s)"
  unfolding std_indices_eq by (rule sorted_wrt_filter) (simp add: sorted_wrt_upt)

text \<open>Selecting by the indices of the rows that satisfy a test is filtering by the test.\<close>

lemma nth_filter_upt:
  "map (\<lambda>i. a ! i) (filter (\<lambda>i. P (a ! i)) [0..<length a]) = filter P a"
proof -
  have "filter P (map (\<lambda>i. a ! i) [0..<length a]) =
        map (\<lambda>i. a ! i) (filter (\<lambda>i. P (a ! i)) [0..<length a])"
    by (simp add: filter_map comp_def)
  then show ?thesis by (simp add: map_nth)
qed

text \<open>
  When the cleaning returns: the labels have a row for every kept index, and both arrays
  are the selection by the same indices.
\<close>

lemma clean_Inr:
  "clean spectra labels = Inr (s1, l1) \<longleftrightarrow>
     (\<forall>i\<in>set (std_indices (nan_to_zero spectra)). i < length labels) \<and>
     s1 = map (\<lambda>i. nan_to_zero spectra ! i) (std_indices (nan_to_zero spectra)) \<and>
     l1 = map (\<lambda>i. labels ! i) (std_indices (nan_to_zero spectra))"
proof -
  let ?idx = "std_indices (nan_to_zero spectra)"
  have "\<forall>i\<in>set ?idx. i < length (nan_to_zero spectra)"
    using std_indices_bound by blast
  then have s: "fancy_index (nan_to_zero spectra) ?idx =
      Inr (map (\<lambda>i. nan_to_zero spectra ! i) ?idx)"
    by (simp add: fancy_index_Inr)
  show ?thesis
  proof (cases "\<forall>i\<in>set ?idx. i < length labels")
    case True
    then have "fancy_index labels ?idx = Inr (map (\<lambda>i. labels ! i) ?idx)"
      by (simp add: fancy_index_Inr)
    with s True show ?thesis
      by (auto simp: clean_def Let_def)
  next
    case False
    then have "fancy_index labels ?idx = Inl IndexError"
      by (simp add: fancy_index_Inl)
    with s False show ?thesis
      by (simp add: clean_def Let_def)
  qed
qed

lemma clean_spectra:
  assumes "clean spectra labels = Inr (s1, l1)"
  shows "s1 = filter (\<lambda>r. np_std r \<noteq> Fin 0) (nan_to_zero spectra)"
proof -
  have "s1 = map (\<lambda>i. nan_to_zero spectra ! i) (std_indices (nan_to_zero spectra))"
    using assms by (simp add: clean_Inr)
  then show ?thesis
    using nth_filter_upt [of "nan_to_zero spectra" "\<lambda>r. np_std r \<noteq> Fin 0"]
    by (simp add: std_indices_eq)
qed

text \<open>
  C3. The cleaning first replaces every NaN flux by 0.0 and only then computes the
  standard deviations and selects rows: whatever the input spectra hold, the spectra it
  returns are rows of the NaN-replaced array and hold no NaN.
\<close>

theorem clean_no_nan:
  assumes "clean spectra labels = Inr (spectra1, labels1)"
  shows "spectra1 =
           filter (\<lambda>r. np_std r \<noteq> Fin 0)
             (map (map (\<lambda>x. if isnan x then Fin 0 else x)) spectra)
         \<and> (\<forall>row\<in>set spectra1. \<forall>x\<in>set row. \<not> isnan x)"
proof -
  have f: "spectra1 = filter (\<lambda>r. np_std r \<noteq> Fin 0) (nan_to_zero spectra)"
    using assms by (rule clean_spectra)
  have n: "x \<noteq> NaN" if "row \<in> set spectra1" "x \<in> set row" for row x
  proof -
    from that(1) have "row \<in> set (nan_to_zero spectra)"
      unfolding f by simp
    then show ?thesis
      using that(2) nan_to_zero_no_nan [of row spectra x] by (simp add: isnan_def)
  qed
  have "spectra1 =
      filter (\<lambda>r. np_std r \<noteq> Fin 0) (map (map (\<lambda>x. if isnan x then Fin 0 else x)) spectra)"
    using f unfolding nan_to_zero_def .
  moreover have "\<forall>row\<in>set spectra1. \<forall>x\<in>set row. \<not> isnan x"
    using n unfolding isnan_def by blast
  ultimately show ?thesis ..
qed

theorem clean_no_nan_witness:
  "clean [[NaN, Fin 1], [NaN, NaN], [PInf, NaN]] [[Fin 5], [Fin 6], [Fin 7]]
     = Inr ([[Fin 0, Fin 1], [PInf, Fin 0]], [[Fin 5], [Fin 7]])
   \<and> list_all (list_all (\<lambda>x. \<not> isnan x)) [[Fin 0, Fin 1], [PInf, Fin 0]]"
proof -
  have c: "clean [[NaN, Fin 1], [NaN, NaN], [PInf, NaN]] [[Fin 5], [Fin 6], [Fin 7]]
      = Inr ([[Fin 0, Fin 1], [PInf, Fin 0]], [[Fin 5], [Fin 7]])"
    by (simp add: eval_defs)
  from clean_no_nan [OF c] c show ?thesis
    by (simp add: list_all_iff)
qed



lemma clean_with_np_std: "clean_with np_std spectra labels = clean spectra labels"
  by (simp add: clean_with_def clean_def std_indices_with_def std_indices_def spec_std_def)






text \<open>
  C7. The cleaning selects spectra and labels by the same ascending index list
  \<^verbatim>\<open>indices\<close>: the k-th returned spectrum is the (NaN-replaced) input spectrum at
  index \<open>indices ! k\<close> and the k-th returned label is the input label at the same index;
  the output is not longer than the input.
\<close>

theorem clean_keeps_pairing:
  assumes "clean spectra labels = Inr (spectra1, labels1)"
  shows "length spectra1 = length labels1 \<and> length spectra1 \<le> length spectra \<and>
         sorted_wrt (<) (std_indices (nan_to_zero spectra)) \<and>
         length (std_indices (nan_to_zero spectra)) = length spectra1 \<and>
         (\<forall>k<length spectra1.
            std_indices (nan_to_zero spectra) ! k < length spectra \<and>
            std_indices (nan_to_zero spectra) ! k < length labels \<and>
            spectra1 ! k = nan_to_zero spectra ! (std_indices (nan_to_zero spectra) ! k) \<and>
            labels1 ! k = labels ! (std_indices (nan_to_zero spectra) ! k))"
proof -
  let ?s0 = "nan_to_zero spectra"
  let ?idx = "std_indices ?s0"
  from assms have b: "\<forall>i\<in>set ?idx. i < length labels"
    and s: "spectra1 = map (\<lambda>i. ?s0 ! i) ?idx"
    and l: "labels1 = map (\<lambda>i. labels ! i) ?idx"
    by (simp_all add: clean_Inr)
  have "spectra1 = filter (\<lambda>r. np_std r \<noteq> Fin 0) ?s0"
    using assms by (rule clean_spectra)
  then have le: "length spectra1 \<le> length spectra"
    using length_filter_le [of "\<lambda>r. np_std r \<noteq> Fin 0" ?s0] by (simp add: length_nan_to_zero)
  have "\<forall>k<length ?idx. ?idx ! k < length spectra \<and> ?idx ! k < length labels"
    using b std_indices_bound [of _ ?s0] by (simp add: length_nan_to_zero)
  with s l le sorted_std_indices [of ?s0] show ?thesis by simp
qed

theorem clean_keeps_pairing_witness:
  "clean [[Fin 1, NaN], [NaN, NaN], [Fin 2, Fin 3]] [[Fin 5], [Fin 6], [Fin 7]]
     = Inr ([[Fin 1, Fin 0], [Fin 2, Fin 3]], [[Fin 5], [Fin 7]])
   \<and> std_indices (nan_to_zero [[Fin 1, NaN], [NaN, NaN], [Fin 2, Fin 3]]) = [0, 2]
   \<and> [[Fin 1, Fin 0], [Fin 2, Fin 3]] ! 1 = nan_to_zero [[Fin 1, NaN], [NaN, NaN], [Fin 2, Fin 3]] ! 2
   \<and> [[Fin 5], [Fin 7]] ! 1 = [[Fin 5], [Fin 6], [Fin 7]] ! 2"
proof -
  have c: "clean [[Fin 1, NaN], [NaN, NaN], [Fin 2, Fin 3]] [[Fin 5], [Fin 6], [Fin 7]]
     = Inr ([[Fin 1, Fin 0], [Fin 2, Fin 3]], [[Fin 5], [Fin 7]])"
    by (simp add: eval_defs)
  have i: "std_indices (nan_to_zero [[Fin 1, NaN], [NaN, NaN], [Fin 2, Fin 3]]) = [0, 2]"
    by (simp add: eval_defs)
  have "\<forall>k<2. [[Fin 1, Fin 0], [Fin 2, Fin 3]] ! k
            = nan_to_zero [[Fin 1, NaN], [NaN, NaN], [Fin 2, Fin 3]] ! ([0, 2] ! k)
          \<and> [[Fin 5], [Fin 7]] ! k = [[Fin 5], [Fin 6], [Fin 7]] ! ([0, 2] ! k)"
    using clean_keeps_pairing [OF c] by (simp add: i)
  then have "[[Fin 1, Fin 0], [Fin 2, Fin 3]] ! 1
            = nan_to_zero [[Fin 1, NaN], [NaN, NaN], [Fin 2, Fin 3]] ! ([0, 2] ! 1)
          \<and> [[Fin 5], [Fin 7]] ! 1 = [[Fin 5], [Fin 6], [Fin 7]] ! ([0, 2] ! 1)"
    by (rule allE [of _ 1]) simp
  with c i show ?thesis
    by simp
qed

section \<open>Properties of the shuffle and the slices\<close>

lemmas split_eval = split_def column_stack_def shuffle_def rk_interval_def reshape3_def


lemma rk_interval_le: "fst (rk_interval mx g) \<le> mx"
  by (simp add: rk_interval_def less_Suc_eq_le [symmetric])

lemma length_shuffle_loop: "length (fst (shuffle_loop k x g)) = length x"
  by (induction k arbitrary: x g) (auto split: prod.splits)

lemma mset_shuffle_loop:
  "k < length x \<Longrightarrow> mset (fst (shuffle_loop k x g)) = mset x"
proof (induction k arbitrary: x g)
  case 0
  show ?case by simp
next
  case (Suc k)
  obtain j g' where r: "rk_interval (Suc k) g = (j, g')"
    by (cases "rk_interval (Suc k) g")
  then have "j \<le> Suc k"
    using rk_interval_le [of "Suc k" g] by simp
  with Suc.prems have j: "j < length x" by simp
  let ?x' = "if Suc k = j then x else x[j := x ! Suc k, Suc k := x ! j]"
  have m: "mset ?x' = mset x"
    using mset_swap [of "Suc k" x j] Suc.prems j by simp
  have "k < length ?x'" using Suc.prems by simp
  then have "mset (fst (shuffle_loop k ?x' g')) = mset ?x'"
    by (rule Suc.IH)
  with m r show ?case by simp
qed

lemma mset_shuffle: "mset (fst (shuffle x g)) = mset x"
proof (cases x)
  case Nil
  then show ?thesis by (simp add: shuffle_def)
next
  case (Cons a as)
  then have "length x - 1 < length x" by simp
  then show ?thesis unfolding shuffle_def by (rule mset_shuffle_loop)
qed

lemma length_shuffle: "length (fst (shuffle x g)) = length x"
  by (simp add: shuffle_def length_shuffle_loop)

lemma shuffle_loop_draws:
  "(\<forall>n<k. g1 n = g2 n) \<Longrightarrow> fst (shuffle_loop k (x :: 'a list) g1) = fst (shuffle_loop k x g2)"
proof (induction k arbitrary: x g1 g2)
  case 0
  show ?case by simp
next
  case (Suc k)
  have j: "fst (rk_interval (Suc k) g1) = fst (rk_interval (Suc k) g2)"
    using Suc.prems by (simp add: rk_interval_def)
  have "\<forall>n<k. snd (rk_interval (Suc k) g1) n = snd (rk_interval (Suc k) g2) n"
    using Suc.prems by (simp add: rk_interval_def)
  then have "fst (shuffle_loop k y (snd (rk_interval (Suc k) g1)))
           = fst (shuffle_loop k y (snd (rk_interval (Suc k) g2)))" for y :: "'a list"
    by (rule Suc.IH)
  with j show ?case by (simp add: case_prod_unfold)
qed

lemma split_Inr:
  assumes "length spectra = length labels"
  shows "split num_train num_fluxes spectra labels g =
    Inr (\<lparr> train_spectra = reshape3 (map (take num_fluxes)
              (take num_train (fst (shuffle (map (\<lambda>(r, s). r @ s) (zip spectra labels)) g)))),
            train_labels = map (drop num_fluxes)
              (take num_train (fst (shuffle (map (\<lambda>(r, s). r @ s) (zip spectra labels)) g))),
            cv_spectra = reshape3 (map (take num_fluxes)
              (drop num_train (fst (shuffle (map (\<lambda>(r, s). r @ s) (zip spectra labels)) g)))),
            cv_labels = map (drop num_fluxes)
              (drop num_train (fst (shuffle (map (\<lambda>(r, s). r @ s) (zip spectra labels)) g))) \<rparr>,
         snd (shuffle (map (\<lambda>(r, s). r @ s) (zip spectra labels)) g))"
  using assms by (simp add: split_def column_stack_def case_prod_unfold)

lemma length_reshape3: "length (reshape3 a) = length a"
  by (simp add: reshape3_def)

lemma zip_slices:
  "zip (reshape3 (map (take nf) rows)) (map (drop nf) rows) = map (unstack nf) rows"
  by (induction rows) (simp_all add: reshape3_def unstack_def)

lemma unstack_rows:
  assumes "length spectra = length labels" "\<forall>r\<in>set spectra. length r = nf"
  shows "map (unstack nf) (map (\<lambda>(r, s). r @ s) (zip spectra labels)) = zip (reshape3 spectra) labels"
  using assms
proof (induction spectra arbitrary: labels)
  case Nil
  then show ?case by (simp add: reshape3_def)
next
  case (Cons r spectra)
  then obtain l ls where "labels = l # ls" by (cases labels) auto
  with Cons show ?case by (simp add: reshape3_def unstack_def)
qed


lemma split_sizes:
  assumes "split num_train num_fluxes spectra labels g = Inr (d, g')"
  shows "length (train_spectra d) = min num_train (length spectra)"
    and "length (cv_spectra d) = length spectra - num_train"
proof -
  have e: "length spectra = length labels"
    using assms by (auto simp: split_def column_stack_def split: if_splits)
  from assms show "length (train_spectra d) = min num_train (length spectra)"
    and "length (cv_spectra d) = length spectra - num_train"
    unfolding split_Inr [OF e] using e
    by (auto simp: reshape3_def length_shuffle)
qed


text \<open>
  C10. The shuffle exchanges whole rows of the column-stacked matrix, and the slices cut
  every row at column \<^verbatim>\<open>num_fluxes\<close>: on a cleaned reference set whose spectra all have
  \<^verbatim>\<open>num_fluxes\<close> bins, the (spectrum, label) pairs of the training set together with
  those of the cross-validation set are exactly the pairs of the input, each once.
\<close>

theorem split_keeps_rows:
  assumes "length spectra = length labels"
    and "\<forall>r\<in>set spectra. length r = num_fluxes"
  shows "\<exists>d g'. split num_train num_fluxes spectra labels g = Inr (d, g') \<and>
           mset (zip (train_spectra d) (train_labels d) @ zip (cv_spectra d) (cv_labels d))
             = mset (zip (reshape3 spectra) labels) \<and>
           length (train_labels d) = length (train_spectra d) \<and>
           length (cv_labels d) = length (cv_spectra d)"
proof -
  let ?stacked = "map (\<lambda>(r, s). r @ s) (zip spectra labels)"
  let ?shuffled = "fst (shuffle ?stacked g)"
  let ?h = "unstack num_fluxes"
  have a: "map ?h (take num_train ?shuffled) @ map ?h (drop num_train ?shuffled) = map ?h ?shuffled"
    by (simp flip: map_append)
  have b: "mset (map ?h ?shuffled) = mset (map ?h ?stacked)"
    using mset_shuffle [of ?stacked g] by (simp only: mset_map)
  have c: "map ?h ?stacked = zip (reshape3 spectra) labels"
    using assms by (rule unstack_rows)
  have "mset (map ?h (take num_train ?shuffled) @ map ?h (drop num_train ?shuffled))
      = mset (zip (reshape3 spectra) labels)"
    by (simp only: a b c)
  then show ?thesis
    by (simp add: split_Inr [OF assms(1)] zip_slices length_reshape3)
qed


theorem split_keeps_rows_witness:
  "length [[Fin 1, Fin 2], [Fin 3, Fin 4], [Fin 5, Fin 6]] = length [[Fin 10], [Fin 20], [Fin 30]]
   \<and> list_all (\<lambda>r. length r = 2) [[Fin 1, Fin 2], [Fin 3, Fin 4], [Fin 5, Fin 6]]
   \<and> split 2 2 [[Fin 1, Fin 2], [Fin 3, Fin 4], [Fin 5, Fin 6]] [[Fin 10], [Fin 20], [Fin 30]]
         (\<lambda>_. 0)
       = Inr (\<lparr> train_spectra = [[[Fin 3], [Fin 4]], [[Fin 5], [Fin 6]]],
                train_labels = [[Fin 20], [Fin 30]],
                cv_spectra = [[[Fin 1], [Fin 2]]],
                cv_labels = [[Fin 10]] \<rparr>, (\<lambda>_. 0))
   \<and> mset (zip [[[Fin 3], [Fin 4]], [[Fin 5], [Fin 6]]] [[Fin 20], [Fin 30]]
            @ zip [[[Fin 1], [Fin 2]]] [[Fin 10]])
       = mset (zip (reshape3 [[Fin 1, Fin 2], [Fin 3, Fin 4], [Fin 5, Fin 6]])
                [[Fin 10], [Fin 20], [Fin 30]])"
proof -
  have e: "split 2 2 [[Fin 1, Fin 2], [Fin 3, Fin 4], [Fin 5, Fin 6]]
             [[Fin 10], [Fin 20], [Fin 30]] (\<lambda>_. 0)
       = Inr (\<lparr> train_spectra = [[[Fin 3], [Fin 4]], [[Fin 5], [Fin 6]]],
                train_labels = [[Fin 20], [Fin 30]],
                cv_spectra = [[[Fin 1], [Fin 2]]],
                cv_labels = [[Fin 10]] \<rparr>, (\<lambda>_. 0))"
    by (simp add: split_eval)
  have h: "\<forall>r\<in>set [[Fin 1, Fin 2], [Fin 3, Fin 4], [Fin 5, Fin 6]]. length r = 2"
    by simp
  have l: "length [[Fin 1, Fin 2], [Fin 3, Fin 4], [Fin 5, Fin 6]]
      = length [[Fin 10], [Fin 20], [Fin 30]]"
    by simp
  from split_keeps_rows [OF l h, of 2 "\<lambda>_. 0"] obtain d g'
    where s: "split 2 2 [[Fin 1, Fin 2], [Fin 3, Fin 4], [Fin 5, Fin 6]]
                [[Fin 10], [Fin 20], [Fin 30]] (\<lambda>_. 0) = Inr (d, g')"
      and m: "mset (zip (train_spectra d) (train_labels d) @ zip (cv_spectra d) (cv_labels d))
            = mset (zip (reshape3 [[Fin 1, Fin 2], [Fin 3, Fin 4], [Fin 5, Fin 6]])
                     [[Fin 10], [Fin 20], [Fin 30]])"
    by blast
  from s e have "d = \<lparr> train_spectra = [[[Fin 3], [Fin 4]], [[Fin 5], [Fin 6]]],
                train_labels = [[Fin 20], [Fin 30]],
                cv_spectra = [[[Fin 1], [Fin 2]]],
                cv_labels = [[Fin 10]] \<rparr>"
    by simp
  with m have "mset (zip [[[Fin 3], [Fin 4]], [[Fin 5], [Fin 6]]] [[Fin 20], [Fin 30]]
            @ zip [[[Fin 1], [Fin 2]]] [[Fin 10]])
       = mset (zip (reshape3 [[Fin 1, Fin 2], [Fin 3, Fin 4], [Fin 5, Fin 6]])
                [[Fin 10], [Fin 20], [Fin 30]])"
    by simp
  with e show ?thesis by simp
qed


text \<open>
  C5, as the cell has it. The split takes no seed: its randomness is the state of numpy's
  global generator. Two runs on the same reference set with different generator states
  give different partitions.
\<close>

theorem split_depends_on_global_state:
  "map_sum id fst (split 1 1 [[Fin 1], [Fin 2]] [[Fin 10], [Fin 20]] (\<lambda>_. 0))
   \<noteq> map_sum id fst (split 1 1 [[Fin 1], [Fin 2]] [[Fin 10], [Fin 20]] (\<lambda>_. 1))"
  by (simp add: split_eval)


text \<open>
  C5, amended. The partition is determined by the input order and by the values the global
  generator yields for the \<open>N - 1\<close> draws of the shuffle: two runs on the same input
  whose generators agree on these draws give the same partition.
\<close>

theorem split_same_draws:
  assumes "\<forall>n<length spectra - 1. g1 n = g2 n"
  shows "map_sum id fst (split num_train num_fluxes spectra labels g1)
       = map_sum id fst (split num_train num_fluxes spectra labels g2)"
proof (cases "length spectra = length labels")
  case True
  let ?stacked = "map (\<lambda>(r, s). r @ s) (zip spectra labels)"
  have "length ?stacked = length spectra" using True by simp
  with assms have "fst (shuffle ?stacked g1) = fst (shuffle ?stacked g2)"
    unfolding shuffle_def by (simp add: shuffle_loop_draws)
  then show ?thesis
    by (simp add: split_Inr [OF True])
next
  case False
  then show ?thesis
    by (simp add: split_def column_stack_def)
qed

theorem split_same_draws_witness:
  "(\<lambda>n::nat. if n < 2 then 0 else 5 :: nat) 0 = (\<lambda>_. 0 :: nat) 0
   \<and> (\<lambda>n::nat. if n < 2 then 0 else 5 :: nat) 1 = (\<lambda>_. 0 :: nat) 1
   \<and> (\<lambda>n::nat. if n < 2 then 0 else 5 :: nat) \<noteq> (\<lambda>_. 0 :: nat)
   \<and> map_sum id fst (split 2 2 [[Fin 1, Fin 2], [Fin 3, Fin 4], [Fin 5, Fin 6]]
                         [[Fin 10], [Fin 20], [Fin 30]] (\<lambda>n::nat. if n < 2 then 0 else 5 :: nat))
     = map_sum id fst (split 2 2 [[Fin 1, Fin 2], [Fin 3, Fin 4], [Fin 5, Fin 6]]
                         [[Fin 10], [Fin 20], [Fin 30]] (\<lambda>_. 0))"
proof -
  have h: "\<forall>n<length [[Fin 1, Fin 2], [Fin 3, Fin 4], [Fin 5, Fin 6]] - 1.
             (\<lambda>n::nat. if n < 2 then 0 else 5 :: nat) n = (\<lambda>_. 0 :: nat) n"
    by simp
  have d: "(\<lambda>n::nat. if n < 2 then 0 else 5 :: nat) \<noteq> (\<lambda>_. 0 :: nat)"
  proof
    assume "(\<lambda>n::nat. if n < 2 then 0 else 5 :: nat) = (\<lambda>_. 0 :: nat)"
    then have "(if (2::nat) < 2 then 0 else 5) = (0 :: nat)" by (rule fun_cong)
    then show False by simp
  qed
  from split_same_draws [OF h] d show ?thesis by simp
qed

section \<open>Properties of the label normalisation\<close>

lemma np_binop_same_length:
  "length a = length b \<Longrightarrow> np_binop f a b = Inr (map2 f a b)"
  by (simp add: np_binop_def bshape_def stretch_def)

lemma normalize_same_length:
  assumes "length mean_labels = length lb" "length std_labels = length lb"
  shows "normalize mean_labels std_labels lb
       = Inr (map2 fdiv (map2 fsub lb mean_labels) std_labels)"
  using assms by (simp add: normalize_def np_binop_same_length)

text \<open>
  C6, as the code has it. \<^verbatim>\<open>normalize\<close> has no guard: with a standard deviation of zero
  it divides all the same and returns an array, here with an infinity in it.
\<close>

theorem normalize_zero_std_no_error:
  "normalize [Fin 2] [Fin 0] [Fin 3] = Inr [PInf]"
  by (simp add: normalize_def np_binop_def bshape_def stretch_def fsub_def)

lemma fdiv_zero_not_finite: "\<not> isfinite (fdiv a (Fin 0))"
  by (cases a) (simp_all add: isfinite_def)

text \<open>
  C6, amended. On statistics of the dimension of the label vector \<^verbatim>\<open>normalize\<close> never
  fails; in every dimension whose standard deviation is zero the division is performed and
  its result is an infinity or NaN.
\<close>

theorem normalize_divides_by_zero_std:
  assumes "length mean_labels = length lb" and "length std_labels = length lb"
  shows "\<exists>ys. normalize mean_labels std_labels lb = Inr ys \<and> length ys = length lb \<and>
           (\<forall>j<length lb. std_labels ! j = Fin 0 \<longrightarrow> \<not> isfinite (ys ! j))"
proof -
  let ?ys = "map2 fdiv (map2 fsub lb mean_labels) std_labels"
  have "\<not> isfinite (?ys ! j)" if "j < length lb" "std_labels ! j = Fin 0" for j
    using that assms by (simp add: fdiv_zero_not_finite)
  then show ?thesis
    using assms by (simp add: normalize_same_length)
qed

theorem normalize_divides_by_zero_std_witness:
  "length [Fin 2, Fin 1] = length [Fin 3, Fin 5] \<and> [Fin 0, Fin 2] ! 0 = Fin 0
   \<and> normalize [Fin 2, Fin 1] [Fin 0, Fin 2] [Fin 3, Fin 5] = Inr [PInf, Fin 2]
   \<and> \<not> isfinite ([PInf, Fin 2] ! 0)"
proof -
  have n: "normalize [Fin 2, Fin 1] [Fin 0, Fin 2] [Fin 3, Fin 5] = Inr [PInf, Fin 2]"
    by (simp add: normalize_def np_binop_def bshape_def stretch_def fsub_def)
  from normalize_divides_by_zero_std [of "[Fin 2, Fin 1]" "[Fin 3, Fin 5]" "[Fin 0, Fin 2]"]
  obtain ys where y: "normalize [Fin 2, Fin 1] [Fin 0, Fin 2] [Fin 3, Fin 5] = Inr ys"
    and z: "\<forall>j<length [Fin 3, Fin 5]. [Fin 0, Fin 2] ! j = Fin 0 \<longrightarrow> \<not> isfinite (ys ! j)"
    by auto
  from y n have "ys = [PInf, Fin 2]" by simp
  with z have "\<not> isfinite ([PInf, Fin 2] ! 0)" by auto
  with n show ?thesis by simp
qed

text \<open>
  C9. The persisted statistics are an array of two rows of D columns, the means in row 0
  and the standard deviations in row 1; what the cell reads from it (\<^verbatim>\<open>mean_labels\<close>,
  \<^verbatim>\<open>std_labels\<close>, \<^verbatim>\<open>num_labels\<close>) are the saved means, the saved standard deviations
  and D, the column count.
\<close>

theorem load_saved_stats:
  assumes "length std_labels = length mean_labels"
  shows "length (save_stats mean_labels std_labels) = 2
       \<and> (\<forall>row\<in>set (save_stats mean_labels std_labels). length row = length mean_labels)
       \<and> save_stats mean_labels std_labels ! 0 = mean_labels
       \<and> save_stats mean_labels std_labels ! 1 = std_labels
       \<and> load_stats (save_stats mean_labels std_labels)
           = Inr (mean_labels, std_labels, length mean_labels)"
  using assms by (simp add: save_stats_def load_stats_def shape1_def)

theorem load_saved_stats_witness:
  "length [Fin 250, Fin 4, Fin 1] = length [Fin 5000, Fin 2, Fin 0]
   \<and> load_stats (save_stats [Fin 5000, Fin 2, Fin 0] [Fin 250, Fin 4, Fin 1])
       = Inr ([Fin 5000, Fin 2, Fin 0], [Fin 250, Fin 4, Fin 1], 3)"
  using load_saved_stats [of "[Fin 250, Fin 4, Fin 1]" "[Fin 5000, Fin 2, Fin 0]"]
  by simp

section \<open>Properties of the error propagation\<close>

text \<open>
  C8. With an ensemble size below 2 (one sample, or none) the propagator returns no
  estimate: it fails with \<^verbatim>\<open>InsufficientSamplesError\<close>, whatever the model, the
  perturbation policy, the statistics and the spectrum.
\<close>

theorem error_propagator_insufficient:
  assumes "K < 2"
  shows "error_propagator predict perturb mean_labels std_labels K target
       = Inl InsufficientSamplesError"
  using assms by (simp add: error_propagator_def)

theorem error_propagator_insufficient_witness:
  "(1::nat) < 2
   \<and> error_propagator (\<lambda>s. Some s) (\<lambda>k s. s) [Fin 0] [Fin 1] 1 [Fin 3]
       = Inl InsufficientSamplesError
   \<and> error_propagator (\<lambda>s. Some s) (\<lambda>k s. s) [Fin 0] [Fin 1] 2 [Fin 3]
       = Inr ([Fin 3], [Fin 0])"
proof -
  have "error_propagator (\<lambda>s. Some s) (\<lambda>k s. s) [Fin 0] [Fin 1] 2 [Fin 3]
       = Inr ([Fin 3], [Fin 0])"
    by (simp add: error_propagator_def invert_def np_mean_def np_std_def np_sum_def fsub_def
        numeral_2_eq_2)
  with error_propagator_insufficient [of 1 "\<lambda>s. Some s" "\<lambda>k s. s" "[Fin 0]" "[Fin 1]" "[Fin 3]"]
  show ?thesis by simp
qed

section \<open>The sizes of the two sets\<close>

lemma length_traverse: "traverse f xs = Inr ys \<Longrightarrow> length ys = length xs"
  by (induction xs arbitrary: ys) (auto split: sum.splits)

lemma length_normalize_rows:
  "normalize_rows mean_labels std_labels lbs = Inr labels \<Longrightarrow> length labels = length lbs"
  by (auto simp: normalize_rows_def length_traverse split: option.splits)

lemma length_column_stack3: "column_stack3 a b c = Inr rows \<Longrightarrow> length rows = length a"
  by (auto simp: column_stack3_def split: if_splits)

lemma load_cell_sizes:
  assumes "load_cell mean_and_std F g = Inr (d, g')"
  shows "length (train_spectra d)
           = min (num_train_of (length (TEFF F)))
                 (length (filter (\<lambda>r. np_std r \<noteq> Fin 0) (nan_to_zero (spectrum F))))"
    and "length (cv_spectra d)
           = length (filter (\<lambda>r. np_std r \<noteq> Fin 0) (nan_to_zero (spectrum F)))
             - num_train_of (length (TEFF F))"
proof -
  from assms obtain mean_labels std_labels num_labels labels0 labels spectra1 labels1
    where "column_stack3 (TEFF F) (LOGG F) (FE_H F) = Inr labels0"
      and "normalize_rows mean_labels std_labels labels0 = Inr labels"
      and c: "clean (spectrum F) labels = Inr (spectra1, labels1)"
      and s: "split (num_train_of (length labels)) (shape1 (spectrum F)) spectra1 labels1 g
              = Inr (d, g')"
    by (auto simp: load_cell_def Let_def split: sum.splits prod.splits)
  then have n: "length labels = length (TEFF F)"
    by (simp add: length_normalize_rows length_column_stack3)
  have f: "spectra1 = filter (\<lambda>r. np_std r \<noteq> Fin 0) (nan_to_zero (spectrum F))"
    using c by (rule clean_spectra)
  show "length (train_spectra d)
           = min (num_train_of (length (TEFF F)))
                 (length (filter (\<lambda>r. np_std r \<noteq> Fin 0) (nan_to_zero (spectrum F))))"
    using split_sizes(1) [OF s] by (simp only: n f)
  show "length (cv_spectra d)
           = length (filter (\<lambda>r. np_std r \<noteq> Fin 0) (nan_to_zero (spectrum F)))
             - num_train_of (length (TEFF F))"
    using split_sizes(2) [OF s] by (simp only: n f)
qed

text \<open>
  C1, at an input with zero-deviation spectra. \<^verbatim>\<open>num_train\<close> is computed from the
  number of labels before the cleaning removes rows. Of four spectra, two of them
  zero-vectors, the cleaning keeps two; \<^verbatim>\<open>num_train\<close> is \<open>\<lfloor>0.9 * 4\<rfloor> = 3\<close>, so both kept
  rows go to the training set and the cross-validation set is empty, where
  \<open>\<lfloor>0.9 * 2\<rfloor> = 1\<close> row should be for training and one for cross-validation.
\<close>

theorem load_cell_train_size:
  "load_cell [[Fin 0, Fin 0, Fin 0], [Fin 1, Fin 1, Fin 1]]
     \<lparr> spectrum = [[Fin 1, Fin 2], [Fin 0, Fin 0], [Fin 3, Fin 5], [Fin 0, Fin 0]],
       TEFF = [Fin 1, Fin 2, Fin 3, Fin 4],
       LOGG = [Fin 5, Fin 6, Fin 7, Fin 8],
       FE_H = [Fin 9, Fin 10, Fin 11, Fin 12] \<rparr> (\<lambda>_. 1)
   = Inr (\<lparr> train_spectra = [[[Fin 1], [Fin 2]], [[Fin 3], [Fin 5]]],
            train_labels = [[Fin 1, Fin 5, Fin 9], [Fin 3, Fin 7, Fin 11]],
            cv_spectra = [],
            cv_labels = [] \<rparr>, (\<lambda>_. 1))
   \<and> clean [[Fin 1, Fin 2], [Fin 0, Fin 0], [Fin 3, Fin 5], [Fin 0, Fin 0]]
         [[Fin 1, Fin 5, Fin 9], [Fin 2, Fin 6, Fin 10], [Fin 3, Fin 7, Fin 11],
          [Fin 4, Fin 8, Fin 12]]
     = Inr ([[Fin 1, Fin 2], [Fin 3, Fin 5]], [[Fin 1, Fin 5, Fin 9], [Fin 3, Fin 7, Fin 11]])
   \<and> num_train_of 4 = 3 \<and> num_train_of 2 = 1"
proof -
  let ?labels = "[[Fin 1, Fin 5, Fin 9], [Fin 2, Fin 6, Fin 10], [Fin 3, Fin 7, Fin 11],
          [Fin 4, Fin 8, Fin 12]]"
  let ?spectra = "[[Fin 1, Fin 2], [Fin 0, Fin 0], [Fin 3, Fin 5], [Fin 0, Fin 0]]"
  have st: "load_stats [[Fin 0, Fin 0, Fin 0], [Fin 1, Fin 1, Fin 1]]
      = Inr ([Fin 0, Fin 0, Fin 0], [Fin 1, Fin 1, Fin 1], 3)"
    by (simp add: load_stats_def shape1_def)
  have cs: "column_stack3 [Fin 1, Fin 2, Fin 3, Fin 4] [Fin 5, Fin 6, Fin 7, Fin 8]
      [Fin 9, Fin 10, Fin 11, Fin 12] = Inr ?labels"
    by (simp add: column_stack3_def)
  have nr: "normalize_rows [Fin 0, Fin 0, Fin 0] [Fin 1, Fin 1, Fin 1] ?labels = Inr ?labels"
    by (simp add: normalize_rows_def normalize_def np_binop_def bshape_def stretch_def fsub_def)
  have sh: "shape1 ?spectra = 2"
    by (simp add: shape1_def)
  have nl: "num_train_of (length ?labels) = 3"
    by (simp add: num_train_of_def)
  have cl: "clean ?spectra ?labels
     = Inr ([[Fin 1, Fin 2], [Fin 3, Fin 5]], [[Fin 1, Fin 5, Fin 9], [Fin 3, Fin 7, Fin 11]])"
    by (simp add: eval_defs)
  have sp: "split 3 2 [[Fin 1, Fin 2], [Fin 3, Fin 5]]
      [[Fin 1, Fin 5, Fin 9], [Fin 3, Fin 7, Fin 11]] (\<lambda>_. 1)
    = Inr (\<lparr> train_spectra = [[[Fin 1], [Fin 2]], [[Fin 3], [Fin 5]]],
            train_labels = [[Fin 1, Fin 5, Fin 9], [Fin 3, Fin 7, Fin 11]],
            cv_spectra = [],
            cv_labels = [] \<rparr>, (\<lambda>_. 1))"
    by (simp add: split_eval)
  have nt: "num_train_of 4 = 3" "num_train_of 2 = 1"
    by (simp_all add: num_train_of_def)
  have lc: "load_cell [[Fin 0, Fin 0, Fin 0], [Fin 1, Fin 1, Fin 1]]
     \<lparr> spectrum = ?spectra,
       TEFF = [Fin 1, Fin 2, Fin 3, Fin 4],
       LOGG = [Fin 5, Fin 6, Fin 7, Fin 8],
       FE_H = [Fin 9, Fin 10, Fin 11, Fin 12] \<rparr> (\<lambda>_. 1)
   = Inr (\<lparr> train_spectra = [[[Fin 1], [Fin 2]], [[Fin 3], [Fin 5]]],
            train_labels = [[Fin 1, Fin 5, Fin 9], [Fin 3, Fin 7, Fin 11]],
            cv_spectra = [],
            cv_labels = [] \<rparr>, (\<lambda>_. 1))"
    by (simp only: load_cell_def h5file.select_convs st cs nr sh nl cl sp Let_def
        sum.case prod.case)
  from lc cl nt show ?thesis
    by (intro conjI)
qed

end
